theory Spec2Isabelle
  imports Main "HOL-Library.Word" "HOL-Library.List_Lexorder" "HOL-Library.Char_ord"
begin

unbundle bit_operations_syntax

section \<open>Bytes and strings\<close>

text \<open>
  A Go \<^verbatim>\<open>[]byte\<close> is a list of 8-bit words; a Go \<^verbatim>\<open>string\<close> is a list of
  \<^typ>\<open>char\<close> (one \<^typ>\<open>char\<close> per byte). The two conversions \<^verbatim>\<open>[]byte(s)\<close> and
  \<^verbatim>\<open>string(b)\<close> copy the bytes unchanged.
\<close>

type_synonym byte = "8 word"

definition bytes_of_string :: "string \<Rightarrow> byte list" where
  "bytes_of_string s = map (\<lambda>c. of_nat (of_char c)) s"

definition string_of_bytes :: "byte list \<Rightarrow> string" where
  "string_of_bytes bs = map (\<lambda>b. char_of (unat b)) bs"

section \<open>The hex codec (Go's encoding/hex, as both programs call it)\<close>

definition hextable :: string where
  "hextable = ''0123456789abcdef''"

text \<open>\<^verbatim>\<open>hex.EncodeToString\<close>: two digits per byte, high nibble first, lower case.\<close>

fun EncodeToString :: "byte list \<Rightarrow> string" where
  "EncodeToString [] = []"
| "EncodeToString (v # vs) =
     hextable ! unat (drop_bit 4 v) # hextable ! unat (v AND 0x0f) # EncodeToString vs"

text \<open>
  The reverse table of the decoder: the value of a hex digit of either case, and
  \<open>0xff\<close> for every other byte.
\<close>

definition reverseHexTable :: "char \<Rightarrow> byte" where
  "reverseHexTable c =
     (let n = (of_char c :: nat) in
      if 48 \<le> n \<and> n \<le> 57 then of_nat (n - 48)
      else if 97 \<le> n \<and> n \<le> 102 then of_nat (n - 87)
      else if 65 \<le> n \<and> n \<le> 70 then of_nat (n - 55)
      else 0xff)"

datatype hex_error = InvalidByteError char | ErrLength

text \<open>
  \<^verbatim>\<open>hex.DecodeString\<close> returns the bytes decoded before the first error together with
  the error (\<open>None\<close> is Go's \<^verbatim>\<open>nil\<close>). An invalid digit is reported before an odd
  length.
\<close>

fun DecodeString :: "string \<Rightarrow> byte list \<times> hex_error option" where
  "DecodeString [] = ([], None)"
| "DecodeString [p] =
     (if reverseHexTable p > 0x0f then ([], Some (InvalidByteError p))
      else ([], Some ErrLength))"
| "DecodeString (p # q # rest) =
     (let a = reverseHexTable p; b = reverseHexTable q in
      if a > 0x0f then ([], Some (InvalidByteError p))
      else if b > 0x0f then ([], Some (InvalidByteError q))
      else (case DecodeString rest of (bs, e) \<Rightarrow> ((push_bit 4 a OR b) # bs, e)))"

section \<open>Decimal rendering of integers (\<^verbatim>\<open>%d\<close>)\<close>

definition digit_char :: "nat \<Rightarrow> char" where
  "digit_char d = ''0123456789'' ! d"

fun digits_of :: "nat \<Rightarrow> string" where
  "digits_of n =
     (if n < 10 then [digit_char n] else digits_of (n div 10) @ [digit_char (n mod 10)])"

definition fmt_d :: "int \<Rightarrow> string" where
  "fmt_d i = (if i < 0 then CHR ''-'' # digits_of (nat (- i)) else digits_of (nat i))"

section \<open>The TCP stub\<close>

record TCPStub =
  Name :: string
  Port :: int
  ResponseMessage :: string
  ResponseHex :: string
  CloseAfter :: bool
  Delay :: int
  ValidateRequest :: bool
  ExpectedHexPattern :: string
  ExpectedPrefix :: string
  MinLength :: int
  MaxLength :: int
  ErrorResponse :: string
  ErrorResponseHex :: string

text \<open>
  \<^verbatim>\<open>validateRequest\<close>: the length of the request in hex characters against the two
  bounds of the rule. The result is the pair of the verdict and the reason.
\<close>

definition validateRequest :: "byte list \<Rightarrow> TCPStub \<Rightarrow> bool \<times> string" where
  "validateRequest data stub =
     (let hexData = EncodeToString data;
          hexLength = int (length hexData) in
      if MinLength stub > 0 \<and> hexLength < MinLength stub then
        (False, ''Request too short: '' @ fmt_d hexLength @ '' hex chars (min: ''
                  @ fmt_d (MinLength stub) @ '')'')
      else if MaxLength stub > 0 \<and> hexLength > MaxLength stub then
        (False, ''Request too long: '' @ fmt_d hexLength @ '' hex chars (max: ''
                  @ fmt_d (MaxLength stub) @ '')'')
      else (True, ''OK''))"

text \<open>
  One call of \<^verbatim>\<open>reader.Read(buffer)\<close> either fails or delivers the bytes
  \<^verbatim>\<open>buffer[:n]\<close>.
\<close>

datatype read_result = ReadErr | ReadOk "byte list"

text \<open>
  What the handler has done to its connection: the argument of every \<^verbatim>\<open>conn.Write\<close>
  call in order, the number of \<^verbatim>\<open>Read\<close> calls that returned, and whether the handler
  has returned (the deferred \<^verbatim>\<open>conn.Close()\<close> has run).
\<close>

record conn =
  written :: "byte list list"
  nreads :: nat
  closed :: bool

text \<open>
  The response bytes of a rule: the decoded \<^verbatim>\<open>response_hex\<close> when that field is not
  empty (\<open>None\<close> when it does not decode), the bytes of \<^verbatim>\<open>response_message\<close>
  otherwise.
\<close>

definition responseData :: "TCPStub \<Rightarrow> byte list option" where
  "responseData stub =
     (if ResponseHex stub \<noteq> [] then
        (case DecodeString (ResponseHex stub) of
           (bs, None) \<Rightarrow> Some bs
         | (bs, Some e) \<Rightarrow> None)
      else Some (bytes_of_string (ResponseMessage stub)))"

text \<open>
  The keep-alive loop at the end of \<^verbatim>\<open>handleConnection\<close>: every further read that
  succeeds is answered with the same bytes; the result of these writes is not looked at.
  The script is the list of results the successive \<^verbatim>\<open>Read\<close> calls return; when it is
  used up the handler is blocked in \<^verbatim>\<open>Read\<close>, the connection still open.
\<close>

fun keep_open :: "byte list \<Rightarrow> read_result list \<Rightarrow> conn \<Rightarrow> conn" where
  "keep_open resp [] c = c"
| "keep_open resp (ReadErr # rest) c = c\<lparr>nreads := nreads c + 1, closed := True\<rparr>"
| "keep_open resp (ReadOk data # rest) c =
     keep_open resp rest (c\<lparr>written := written c @ [resp], nreads := nreads c + 1\<rparr>)"

text \<open>
  \<^verbatim>\<open>handleConnection\<close> for one accepted connection. \<open>wok\<close> tells whether the first
  \<^verbatim>\<open>conn.Write\<close> returns without error. The delay before the response and the log
  lines are not part of the model.
\<close>

definition handleConnection :: "TCPStub \<Rightarrow> bool \<Rightarrow> read_result list \<Rightarrow> conn" where
  "handleConnection stub wok script =
     (case script of
        [] \<Rightarrow> \<lparr>written = [], nreads = 0, closed = False\<rparr>
      | ReadErr # rest \<Rightarrow> \<lparr>written = [], nreads = 1, closed = True\<rparr>
      | ReadOk data # rest \<Rightarrow>
          if ValidateRequest stub \<and> \<not> fst (validateRequest data stub) then
            \<lparr>written = [], nreads = 1, closed = True\<rparr>
          else
            (case responseData stub of
               None \<Rightarrow> \<lparr>written = [], nreads = 1, closed = True\<rparr>
             | Some resp \<Rightarrow>
                 if \<not> wok then \<lparr>written = [resp], nreads = 1, closed = True\<rparr>
                 else if \<not> CloseAfter stub then
                   keep_open resp rest \<lparr>written = [resp], nreads = 1, closed = False\<rparr>
                 else \<lparr>written = [resp], nreads = 1, closed = True\<rparr>))"

section \<open>The WebSocket bridge\<close>

definition TextMessage :: int where
  "TextMessage = 1"

definition BinaryMessage :: int where
  "BinaryMessage = 2"

text \<open>
  One call of \<^verbatim>\<open>wsConn.ReadMessage()\<close> fails with an error text or delivers a
  message type and a payload; one call of \<^verbatim>\<open>tcpConn.Read(buffer)\<close> fails, times out
  on its 30 second deadline, or delivers \<^verbatim>\<open>buffer[:n]\<close>.
\<close>

datatype ws_read = WsReadErr string | WsMessage int "byte list"

datatype tcp_read = TcpReadErr string | TcpTimeout | TcpData "byte list"

text \<open>
  What one directional loop has done: the argument of every \<^verbatim>\<open>tcpConn.Write\<close>, the
  type and payload of every \<^verbatim>\<open>wsConn.WriteMessage\<close>, and the errors it has put on
  \<^verbatim>\<open>errChan\<close>.
\<close>

record relay =
  tcp_written :: "byte list list"
  ws_sent :: "(int \<times> byte list) list"
  errChan :: "string list"

definition idle :: relay where
  "idle = \<lparr>tcp_written = [], ws_sent = [], errChan = []\<rparr>"

text \<open>
  The loop WebSocket \<open>\<rightarrow>\<close> TCP. \<open>errtext\<close> is the text \<^verbatim>\<open>%v\<close> prints for a hex
  decoding error; \<open>twrite k\<close> is the error returned by the \<open>k\<close>-th call of
  \<^verbatim>\<open>tcpConn.Write\<close> (counting from 0), \<open>None\<close> for \<^verbatim>\<open>nil\<close>. The script holds the
  results of the successive \<^verbatim>\<open>ReadMessage\<close> calls; when it is used up the loop is
  blocked in \<^verbatim>\<open>ReadMessage\<close>. The result of the \<^verbatim>\<open>WriteMessage\<close> that reports
  invalid hex is not looked at.
\<close>

fun ws_to_tcp ::
  "(hex_error \<Rightarrow> string) \<Rightarrow> (nat \<Rightarrow> string option) \<Rightarrow> ws_read list \<Rightarrow> relay \<Rightarrow> relay" where
  "ws_to_tcp errtext twrite [] st = st"
| "ws_to_tcp errtext twrite (WsReadErr e # rest) st =
     st\<lparr>errChan := errChan st @ [''WS read error: '' @ e]\<rparr>"
| "ws_to_tcp errtext twrite (WsMessage messageType message # rest) st =
     (case (if messageType = BinaryMessage then (message, None)
            else DecodeString (string_of_bytes message)) of
        (dataToSend, Some err) \<Rightarrow>
          ws_to_tcp errtext twrite rest
            (st\<lparr>ws_sent := ws_sent st @
                   [(TextMessage, bytes_of_string (''ERROR: Invalid hex: '' @ errtext err))]\<rparr>)
      | (dataToSend, None) \<Rightarrow>
          (case twrite (length (tcp_written st)) of
             Some e \<Rightarrow>
               st\<lparr>tcp_written := tcp_written st @ [dataToSend],
                  errChan := errChan st @ [''TCP write error: '' @ e]\<rparr>
           | None \<Rightarrow>
               ws_to_tcp errtext twrite rest
                 (st\<lparr>tcp_written := tcp_written st @ [dataToSend]\<rparr>)))"

text \<open>
  The loop TCP \<open>\<rightarrow>\<close> WebSocket: every chunk read is hex encoded and sent as one text
  frame. \<open>wwrite k\<close> is the error returned by the \<open>k\<close>-th \<^verbatim>\<open>WriteMessage\<close> of this
  loop.
\<close>

fun tcp_to_ws :: "(nat \<Rightarrow> string option) \<Rightarrow> tcp_read list \<Rightarrow> relay \<Rightarrow> relay" where
  "tcp_to_ws wwrite [] st = st"
| "tcp_to_ws wwrite (TcpReadErr e # rest) st =
     st\<lparr>errChan := errChan st @ [''TCP read error: '' @ e]\<rparr>"
| "tcp_to_ws wwrite (TcpTimeout # rest) st = tcp_to_ws wwrite rest st"
| "tcp_to_ws wwrite (TcpData data # rest) st =
     (let hexData = EncodeToString data in
      case wwrite (length (ws_sent st)) of
        Some e \<Rightarrow>
          st\<lparr>ws_sent := ws_sent st @ [(TextMessage, bytes_of_string hexData)],
             errChan := errChan st @ [''WS write error: '' @ e]\<rparr>
      | None \<Rightarrow>
          tcp_to_ws wwrite rest
            (st\<lparr>ws_sent := ws_sent st @ [(TextMessage, bytes_of_string hexData)]\<rparr>))"

text \<open>
  Everything the environment decides for one session: whether the upgrade succeeds,
  the error of \<^verbatim>\<open>net.DialTimeout\<close> (\<open>None\<close> when the backend is connected), and the
  results of the I/O calls of the two loops.
\<close>

record env =
  upgrade_ok :: bool
  dial :: "string option"
  errtext :: "hex_error \<Rightarrow> string"
  ws_reads :: "ws_read list"
  tcp_writes :: "nat \<Rightarrow> string option"
  tcp_reads :: "tcp_read list"
  ws_writes :: "nat \<Rightarrow> string option"

text \<open>
  One session: the frames \<^verbatim>\<open>handleWebSocket\<close> itself has sent, the number of
  directional loops it has started (\<^verbatim>\<open>go func()\<close>), what each loop has done, and
  whether the handler has returned. Each loop is a function of the results of its own
  I/O calls; how the two loops interleave is not part of the model. With both loops
  running the handler returns once an error is on \<^verbatim>\<open>errChan\<close>.
\<close>

record session =
  handler_sent :: "(int \<times> byte list) list"
  loops :: nat
  up :: relay
  down :: relay
  returned :: bool

definition handleWebSocket :: "env \<Rightarrow> session" where
  "handleWebSocket E =
     (if \<not> upgrade_ok E then
        \<lparr>handler_sent = [], loops = 0, up = idle, down = idle, returned = True\<rparr>
      else
        (case dial E of
           Some err \<Rightarrow>
             \<lparr>handler_sent =
                [(TextMessage, bytes_of_string (''ERROR: Cannot connect to TCP backend: '' @ err))],
              loops = 0, up = idle, down = idle, returned = True\<rparr>
         | None \<Rightarrow>
             (let u = ws_to_tcp (errtext E) (tcp_writes E) (ws_reads E) idle;
                  d = tcp_to_ws (ws_writes E) (tcp_reads E) idle in
              \<lparr>handler_sent = [], loops = 2, up = u, down = d,
               returned = (errChan u \<noteq> [] \<or> errChan d \<noteq> [])\<rparr>)))"

section \<open>JSON values and their default rendering\<close>

text \<open>
  The values \<^verbatim>\<open>json.Unmarshal\<close> stores in an \<^verbatim>\<open>interface{}\<close>. A number is
  represented by the text \<^verbatim>\<open>%v\<close> prints for it, an object by its list of members
  (keys distinct).
\<close>

datatype jvalue =
  JNull | JBool bool | JNumber string | JString string
| JArray "jvalue list" | JObject "(string \<times> jvalue) list"

fun join_sp :: "string list \<Rightarrow> string" where
  "join_sp [] = []"
| "join_sp [x] = x"
| "join_sp (x # y # ys) = x @ CHR '' '' # join_sp (y # ys)"

text \<open>
  \<^verbatim>\<open>fmt.Sprintf("%v", x)\<close>: \<^verbatim>\<open>nil\<close> prints as \<^verbatim>\<open><nil>\<close>, a string as its
  characters without quotes, a slice as \<^verbatim>\<open>[a b]\<close>, a map as \<^verbatim>\<open>map[k:v k:v]\<close> with
  the keys in ascending order.
\<close>

fun Sprint_v :: "jvalue \<Rightarrow> string" where
  "Sprint_v JNull = ''<nil>''"
| "Sprint_v (JBool b) = (if b then ''true'' else ''false'')"
| "Sprint_v (JNumber s) = s"
| "Sprint_v (JString s) = s"
| "Sprint_v (JArray xs) = ''['' @ join_sp (map Sprint_v xs) @ '']''"
| "Sprint_v (JObject kvs) =
     ''map['' @
     join_sp (map snd (sort_key fst (map (\<lambda>(k, v). (k, k @ '':'' @ Sprint_v v)) kvs))) @
     '']''"

text \<open>\<^verbatim>\<open>strings.Split(path, ".")\<close>: always at least one piece.\<close>

fun Split_dot :: "string \<Rightarrow> string list" where
  "Split_dot [] = [[]]"
| "Split_dot (c # cs) =
     (if c = CHR ''.'' then [] # Split_dot cs
      else (case Split_dot cs of
              [] \<Rightarrow> [[c]]
            | w # ws \<Rightarrow> (c # w) # ws))"

text \<open>\<^verbatim>\<open>m[key]\<close> on a map of \<^verbatim>\<open>interface{}\<close>: \<^verbatim>\<open>nil\<close> for a key that is absent.\<close>

definition index_map :: "(string \<times> jvalue) list \<Rightarrow> string \<Rightarrow> jvalue" where
  "index_map m key = (case map_of m key of None \<Rightarrow> JNull | Some v \<Rightarrow> v)"

text \<open>
  The loop of \<^verbatim>\<open>jsonFieldMatches\<close> over the keys: \<open>None\<close> is its early
  \<^verbatim>\<open>return false\<close>, taken when the current value is not a map.
\<close>

fun descend :: "jvalue \<Rightarrow> string list \<Rightarrow> jvalue option" where
  "descend current [] = Some current"
| "descend current (key # keys) =
     (case current of
        JObject m \<Rightarrow> descend (index_map m key) keys
      | _ \<Rightarrow> None)"

definition jsonFieldMatches :: "(string \<times> jvalue) list \<Rightarrow> string \<Rightarrow> jvalue \<Rightarrow> bool" where
  "jsonFieldMatches data path expectedValue =
     (case descend (JObject data) (Split_dot path) of
        None \<Rightarrow> False
      | Some current \<Rightarrow> Sprint_v current = Sprint_v expectedValue)"

section \<open>The HTTP stub server\<close>

record HTTPResponse =
  Status :: int
  Headers :: "(string \<times> string) list"
  Body :: string
  Delay :: int

record HTTPStub =
  Name :: string
  Method :: string
  Path :: string
  Headers :: "(string \<times> string) list"
  BodyContains :: string
  BodyJSON :: "(string \<times> jvalue) list"
  Response :: HTTPResponse

text \<open>
  The body of a request is a reader: \<^verbatim>\<open>io.ReadAll\<close> either fails, and keeps failing,
  or returns all the text and leaves the reader empty.
\<close>

datatype body_reader = Readable string | Failing

fun ReadAll :: "body_reader \<Rightarrow> string option \<times> body_reader" where
  "ReadAll (Readable s) = (Some s, Readable [])"
| "ReadAll Failing = (None, Failing)"

text \<open>
  The request as \<^verbatim>\<open>matchRequest\<close> reads it. \<open>Header r key\<close> is the list of values
  the request carries for the header \<open>key\<close> (the lookup of the canonical form of the key
  in \<^verbatim>\<open>r.Header\<close>), empty when the header is absent.
\<close>

record Request =
  Method :: string
  URL_Path :: string
  Header :: "string \<Rightarrow> string list"
  Body :: body_reader

text \<open>\<^verbatim>\<open>r.Header.Get(key)\<close>: the first value, the empty string when there is none.\<close>

definition Header_Get :: "Request \<Rightarrow> string \<Rightarrow> string" where
  "Header_Get r key = (case Header r key of [] \<Rightarrow> [] | v # vs \<Rightarrow> v)"

text \<open>
  \<^verbatim>\<open>strings.EqualFold\<close>. As long as both strings hold ASCII bytes they are
  compared byte by byte, equal bytes and the two cases of a letter A to Z being
  accepted. At the first byte from \<open>0x80\<close> on, in either string, the rest of the two
  strings is compared rune by rune under Unicode simple case folding: that comparison
  needs the tables of package \<^verbatim>\<open>unicode\<close> and is the parameter \<open>uni\<close>.
\<close>

fun EqualFold :: "(string \<Rightarrow> string \<Rightarrow> bool) \<Rightarrow> string \<Rightarrow> string \<Rightarrow> bool" where
  "EqualFold uni [] t = (t = [])"
| "EqualFold uni (sr # s) [] = False"
| "EqualFold uni (sr # s) (tr # t) =
     (let a = (of_char sr :: nat); b = (of_char tr :: nat) in
      if 128 \<le> a \<or> 128 \<le> b then uni (sr # s) (tr # t)
      else if tr = sr then EqualFold uni s t
      else if 65 \<le> min a b \<and> min a b \<le> 90 \<and> max a b = min a b + 32
        then EqualFold uni s t
      else False)"

text \<open>\<^verbatim>\<open>strings.Contains\<close>.\<close>

fun Contains :: "string \<Rightarrow> string \<Rightarrow> bool" where
  "Contains [] substr = (substr = [])"
| "Contains (c # cs) substr = (take (length substr) (c # cs) = substr \<or> Contains cs substr)"

text \<open>
  The two library functions \<^verbatim>\<open>matchRequest\<close> relies on and this theory does not
  define: the Unicode part of \<^verbatim>\<open>strings.EqualFold\<close>, and \<^verbatim>\<open>json.Unmarshal\<close>
  into a map (\<open>None\<close> when it returns an error).
\<close>

record library =
  foldUnicode :: "string \<Rightarrow> string \<Rightarrow> bool"
  Unmarshal :: "string \<Rightarrow> (string \<times> jvalue) list option"

text \<open>
  \<^verbatim>\<open>matchRequest\<close>. The function reads the body of the request and puts it back, so
  it returns the request as it leaves it.
\<close>

definition matchRequest :: "library \<Rightarrow> Request \<Rightarrow> HTTPStub \<Rightarrow> bool \<times> Request" where
  "matchRequest L r stub =
     (if \<not> EqualFold (foldUnicode L) (HTTPStub.Method stub) (Request.Method r) then (False, r)
      else if Path stub \<noteq> URL_Path r then (False, r)
      else if \<not> list_all (\<lambda>(key, value). Header_Get r key = value) (HTTPStub.Headers stub)
        then (False, r)
      else if BodyContains stub \<noteq> [] \<or> BodyJSON stub \<noteq> [] then
        (case ReadAll (Request.Body r) of
           (None, b) \<Rightarrow> (False, r\<lparr>Request.Body := b\<rparr>)
         | (Some bodyStr, b) \<Rightarrow>
             (let r' = r\<lparr>Request.Body := Readable bodyStr\<rparr> in
              if BodyContains stub \<noteq> [] \<and> \<not> Contains bodyStr (BodyContains stub)
                then (False, r')
              else if BodyJSON stub \<noteq> [] then
                (case Unmarshal L bodyStr of
                   None \<Rightarrow> (False, r')
                 | Some requestJSON \<Rightarrow>
                     if list_all (\<lambda>(key, expectedValue).
                          jsonFieldMatches requestJSON key expectedValue) (BodyJSON stub)
                     then (True, r') else (False, r'))
              else (True, r')))
      else (True, r))"

text \<open>
  What \<^verbatim>\<open>ServeHTTP\<close> does to the response writer when it runs to its end: the
  status code it passes to \<^verbatim>\<open>WriteHeader\<close>, the headers it sets and the body it
  writes. How the library puts these calls on the wire is not part of the model.
\<close>

record reply =
  code :: int
  headers_set :: "(string \<times> string) list"
  body_written :: string

definition not_found :: reply where
  "not_found =
     \<lparr>code = 404, headers_set = [],
      body_written = ''{\"error\": \"No stub matched\"}''\<rparr>"

definition reply_of :: "HTTPResponse \<Rightarrow> reply" where
  "reply_of resp =
     \<lparr>code = Status resp, headers_set = HTTPResponse.Headers resp,
      body_written = HTTPResponse.Body resp\<rparr>"

text \<open>
  \<^verbatim>\<open>w.WriteHeader(code)\<close> panics for a code below 100 or above 999 (the code is 0
  when a rule gives no status). The handler ends there: the body is never written and no
  response is sent.
\<close>

datatype http_error = InvalidWriteHeaderCode int

text \<open>
  \<^verbatim>\<open>ServeHTTP\<close>: the stubs are tried in their order; \<open>Inl\<close> is the panic of
  \<^verbatim>\<open>WriteHeader\<close>. The delay before the response and the log lines are not part of
  the model.
\<close>

fun ServeHTTP :: "library \<Rightarrow> HTTPStub list \<Rightarrow> Request \<Rightarrow> http_error + reply" where
  "ServeHTTP L [] r = Inr not_found"
| "ServeHTTP L (stub # stubs) r =
     (case matchRequest L r stub of
        (True, r') \<Rightarrow>
          if Status (Response stub) < 100 \<or> Status (Response stub) > 999
          then Inl (InvalidWriteHeaderCode (Status (Response stub)))
          else Inr (reply_of (Response stub))
      | (False, r') \<Rightarrow> ServeHTTP L stubs r')"

section \<open>The statements of the specification, and concrete inputs\<close>

text \<open>
  The bounds of a rule as the specification words them: the interval from the minimum to
  the maximum, a bound of 0 being absent.
\<close>

definition spec_within_bounds :: "int \<Rightarrow> int \<Rightarrow> int \<Rightarrow> bool" where
  "spec_within_bounds minLength maxLength h =
     ((minLength = 0 \<or> minLength \<le> h) \<and> (maxLength = 0 \<or> h \<le> maxLength))"

text \<open>
  The rule of the specification's scenario: port 9000, response \<^verbatim>\<open>0102\<close>, close after
  the response, validation with bounds 4 and 8.
\<close>

definition rule_9000 :: TCPStub where
  "rule_9000 =
     \<lparr>TCPStub.Name = ''demo'', Port = 9000, ResponseMessage = [], ResponseHex = ''0102'',
      CloseAfter = True, TCPStub.Delay = 0, ValidateRequest = True, ExpectedHexPattern = [],
      ExpectedPrefix = [], MinLength = 4, MaxLength = 8, ErrorResponse = [],
      ErrorResponseHex = []\<rparr>"

text \<open>The same rule with a response that is not valid hex (an odd number of digits).\<close>

definition rule_bad_hex :: TCPStub where
  "rule_bad_hex = rule_9000\<lparr>ResponseHex := ''0102z''\<rparr>"

text \<open>The same rule with no minimum and a negative maximum.\<close>

definition rule_negative_max :: TCPStub where
  "rule_negative_max = rule_9000\<lparr>MinLength := 0, MaxLength := - 1\<rparr>"

text \<open>The same rule, keeping the connection open after the response.\<close>

definition rule_keep_open :: TCPStub where
  "rule_keep_open = rule_9000\<lparr>CloseAfter := False\<rparr>"

text \<open>The rule that keeps the connection open, with the response that is not valid hex.\<close>

definition rule_keep_open_bad_hex :: TCPStub where
  "rule_keep_open_bad_hex = rule_bad_hex\<lparr>CloseAfter := False\<rparr>"

text \<open>
  The text of the two errors of \<^verbatim>\<open>encoding/hex\<close>, as \<^verbatim>\<open>%v\<close> prints them. The
  invalid byte is printed with \<^verbatim>\<open>%#U\<close>: \<^verbatim>\<open>U+\<close> and four upper-case hex digits,
  followed, when the rune is printable, by the rune in UTF-8 between single quotes. For a
  rune below 256, \<^verbatim>\<open>strconv.IsPrint\<close> holds from \<open>0x20\<close> to \<open>0x7e\<close> and from
  \<open>0xa1\<close> to \<open>0xff\<close> except \<open>0xad\<close>.
\<close>

definition IsPrint :: "nat \<Rightarrow> bool" where
  "IsPrint r = (32 \<le> r \<and> r \<le> 126 \<or> 161 \<le> r \<and> r \<le> 255 \<and> r \<noteq> 173)"

definition EncodeRune :: "char \<Rightarrow> string" where
  "EncodeRune c =
     (let r = (of_char c :: nat) in
      if r < 128 then [c] else [char_of (192 + r div 64), char_of (128 + r mod 64)])"

definition fmt_sharp_U :: "char \<Rightarrow> string" where
  "fmt_sharp_U c =
     (let r = (of_char c :: nat) in
      ''U+00'' @ [''0123456789ABCDEF'' ! (r div 16), ''0123456789ABCDEF'' ! (r mod 16)] @
      (if IsPrint r then [CHR '' '', CHR 0x27] @ EncodeRune c @ [CHR 0x27] else []))"

definition hex_error_text :: "hex_error \<Rightarrow> string" where
  "hex_error_text e =
     (case e of
        ErrLength \<Rightarrow> ''encoding/hex: odd length hex string''
      | InvalidByteError c \<Rightarrow> ''encoding/hex: invalid byte: '' @ fmt_sharp_U c)"

text \<open>
  Inputs for the bridge: writes that never fail, a session that receives the text frame
  \<^verbatim>\<open>zz\<close> and then the text frame \<^verbatim>\<open>f00d\<close>, and the same session with a
  backend that refuses the connection.
\<close>

definition no_error :: "nat \<Rightarrow> string option" where
  "no_error k = None"

definition env_zz :: env where
  "env_zz =
     \<lparr>upgrade_ok = True, dial = None, errtext = hex_error_text,
      ws_reads = [WsMessage TextMessage (bytes_of_string ''zz''),
                  WsMessage TextMessage (bytes_of_string ''f00d'')],
      tcp_writes = no_error, tcp_reads = [], ws_writes = no_error\<rparr>"

definition env_refused :: env where
  "env_refused = env_zz\<lparr>dial := Some ''connection refused'', tcp_reads := [TcpData [1, 2]]\<rparr>"

text \<open>
  The full match of a request against a stub as the specification words it: the method
  equal up to case, the path equal, every header the stub names satisfying
  \<open>header_ok\<close>, and the body conditions of the stub (the substring, the JSON fields)
  holding of the body of the request. \<open>header_present\<close> is the specification's
  condition on a header, present with exactly the value; \<open>header_reads\<close> is the
  condition on what \<^verbatim>\<open>Get\<close> returns.
\<close>

definition header_present :: "Request \<Rightarrow> string \<Rightarrow> string \<Rightarrow> bool" where
  "header_present r key value = (Header r key \<noteq> [] \<and> Header_Get r key = value)"

definition header_reads :: "Request \<Rightarrow> string \<Rightarrow> string \<Rightarrow> bool" where
  "header_reads r key value = (Header_Get r key = value)"

definition body_conditions ::
  "library \<Rightarrow> Request \<Rightarrow> HTTPStub \<Rightarrow> bool" where
  "body_conditions L r stub =
     (if BodyContains stub = [] \<and> BodyJSON stub = [] then True
      else (case Request.Body r of
              Failing \<Rightarrow> False
            | Readable bodyStr \<Rightarrow>
                (BodyContains stub = [] \<or> Contains bodyStr (BodyContains stub)) \<and>
                (BodyJSON stub = [] \<or>
                 (case Unmarshal L bodyStr of
                    None \<Rightarrow> False
                  | Some requestJSON \<Rightarrow>
                      list_all (\<lambda>(key, expectedValue).
                        jsonFieldMatches requestJSON key expectedValue) (BodyJSON stub)))))"

definition full_match ::
  "(Request \<Rightarrow> string \<Rightarrow> string \<Rightarrow> bool) \<Rightarrow> library \<Rightarrow> Request \<Rightarrow> HTTPStub \<Rightarrow> bool" where
  "full_match header_ok L r stub =
     (EqualFold (foldUnicode L) (HTTPStub.Method stub) (Request.Method r) \<and>
      Path stub = URL_Path r \<and>
      list_all (\<lambda>(key, value). header_ok r key value) (HTTPStub.Headers stub) \<and>
      body_conditions L r stub)"

definition first_match_reply ::
  "(Request \<Rightarrow> string \<Rightarrow> string \<Rightarrow> bool) \<Rightarrow> library \<Rightarrow> HTTPStub list \<Rightarrow> Request \<Rightarrow> reply" where
  "first_match_reply header_ok L stubs r =
     (case find (full_match header_ok L r) stubs of
        Some stub \<Rightarrow> reply_of (Response stub)
      | None \<Rightarrow> not_found)"

text \<open>
  Inputs for the HTTP server: library functions for requests and stubs in ASCII without
  JSON conditions (the Unicode comparison is never reached, the decoder never called),
  requests without headers and with an \<^verbatim>\<open>Authorization\<close> header, the health check
  stub that \<^verbatim>\<open>main\<close> installs, and more stubs for the same path, one of them
  without a status.
\<close>

definition no_fold :: "string \<Rightarrow> string \<Rightarrow> bool" where
  "no_fold s t = False"

definition no_json :: "string \<Rightarrow> (string \<times> jvalue) list option" where
  "no_json s = None"

definition plain_library :: library where
  "plain_library = \<lparr>foldUnicode = no_fold, Unmarshal = no_json\<rparr>"

definition no_headers :: "string \<Rightarrow> string list" where
  "no_headers key = []"

definition auth_headers :: "string \<Rightarrow> string list" where
  "auth_headers key = (if key = ''Authorization'' then [''Bearer x''] else [])"

definition stub_health :: HTTPStub where
  "stub_health =
     \<lparr>HTTPStub.Name = ''health-check'', HTTPStub.Method = ''GET'', Path = ''/health'',
      HTTPStub.Headers = [], BodyContains = [], BodyJSON = [],
      Response = \<lparr>Status = 200, HTTPResponse.Headers = [(''Content-Type'', ''application/json'')],
                  HTTPResponse.Body = ''{\"status\": \"ok\"}'', HTTPResponse.Delay = 0\<rparr>\<rparr>"

definition stub_debug :: HTTPStub where
  "stub_debug =
     stub_health\<lparr>HTTPStub.Name := ''debug'', HTTPStub.Headers := [(''X-Debug'', [])],
       Response := \<lparr>Status = 500, HTTPResponse.Headers = [], HTTPResponse.Body = ''debug'',
                    HTTPResponse.Delay = 0\<rparr>\<rparr>"

definition stub_no_status :: HTTPStub where
  "stub_no_status =
     stub_health\<lparr>HTTPStub.Name := ''no-status'',
       Response := \<lparr>Status = 0, HTTPResponse.Headers = [], HTTPResponse.Body = ''hello'',
                    HTTPResponse.Delay = 0\<rparr>\<rparr>"

definition stub_auth :: HTTPStub where
  "stub_auth =
     stub_health\<lparr>HTTPStub.Name := ''auth'', HTTPStub.Headers := [(''Authorization'', ''Bearer x'')],
       Response := \<lparr>Status = 204, HTTPResponse.Headers = [], HTTPResponse.Body = [],
                    HTTPResponse.Delay = 0\<rparr>\<rparr>"

definition stub_echo :: HTTPStub where
  "stub_echo =
     stub_health\<lparr>HTTPStub.Name := ''echo'', HTTPStub.Method := ''post'', BodyContains := ''ping'',
       Response := \<lparr>Status = 201, HTTPResponse.Headers = [], HTTPResponse.Body = ''pong'',
                    HTTPResponse.Delay = 0\<rparr>\<rparr>"

definition get_health :: Request where
  "get_health =
     \<lparr>Request.Method = ''GET'', URL_Path = ''/health'', Header = no_headers,
      Request.Body = Readable []\<rparr>"

definition post_health :: Request where
  "post_health = get_health\<lparr>Request.Method := ''POST'', Request.Body := Readable ''a ping b''\<rparr>"

definition get_health_auth :: Request where
  "get_health_auth = get_health\<lparr>Header := auth_headers\<rparr>"

text \<open>A request body, decoded, for the JSON field check.\<close>

definition order_body :: "(string \<times> jvalue) list" where
  "order_body =
     [(''user'', JObject [(''id'', JNumber ''1''), (''name'', JString ''bob'')]),
      (''count'', JNumber ''5'')]"

section \<open>Properties of the hex codec\<close>

declare digits_of.simps [simp del]

lemma reverseHexTable_digits:
  "list_all (\<lambda>n. reverseHexTable (hextable ! n) = of_nat n) [0..<16]"
  by code_simp

lemma reverseHexTable_hextable_nat: "n < 16 \<Longrightarrow> reverseHexTable (hextable ! n) = of_nat n"
proof -
  assume "n < 16"
  then have "n \<in> set [0..<16]" by simp
  with reverseHexTable_digits show ?thesis unfolding list_all_iff by blast
qed

lemma reverseHexTable_hextable: "w \<le> 15 \<Longrightarrow> reverseHexTable (hextable ! unat w) = w"
proof -
  assume "w \<le> 15"
  then have "unat w < 16" by (simp add: word_le_nat_alt)
  then show ?thesis using reverseHexTable_hextable_nat [of "unat w"] by simp
qed

lemma high_nibble_le: "drop_bit 4 (v :: byte) \<le> 15"
proof -
  have "unat v < 256" using unsigned_less [of v, where ?'a = nat] by simp
  then have "unat v div 16 < 16" by arith
  then show ?thesis by (simp add: word_le_nat_alt drop_bit_eq_div unat_div)
qed

lemma low_nibble_le: "(v :: byte) AND 15 \<le> 15"
  by (rule word_and_le1)

lemma nibbles_join: "push_bit 4 (drop_bit 4 v) OR (v AND 15) = (v :: byte)"
proof -
  have m: "(15 :: byte) = mask 4" by (simp add: mask_eq_exp_minus_1)
  show ?thesis unfolding m by (rule bit_word_eqI) (auto simp add: bit_simps)
qed

lemma reverse_high: "reverseHexTable (hextable ! unat (drop_bit 4 (v::byte))) = drop_bit 4 v"
  by (rule reverseHexTable_hextable [OF high_nibble_le])

lemma reverse_low: "reverseHexTable (hextable ! unat ((v::byte) AND 15)) = v AND 15"
  by (rule reverseHexTable_hextable [OF low_nibble_le])

lemma Decode_Encode: "DecodeString (EncodeToString bs) = (bs, None)"
  by (induction bs)
    (simp_all add: reverse_high reverse_low high_nibble_le low_nibble_le nibbles_join not_less
      Let_def)

lemma hextable_cases:
  "list_all (\<lambda>c. hextable ! unat (reverseHexTable c) = c \<and> reverseHexTable c \<le> 15) hextable"
  by code_simp

lemma hextable_reverse:
  "c \<in> set hextable \<Longrightarrow> hextable ! unat (reverseHexTable c) = c \<and> reverseHexTable c \<le> 15"
  using hextable_cases unfolding list_all_iff by blast

lemma nibbles_split:
  "a \<le> 15 \<Longrightarrow> b \<le> 15 \<Longrightarrow>
   drop_bit 4 (push_bit 4 a OR b) = (a :: byte) \<and> (push_bit 4 a OR b) AND 15 = b"
proof -
  assume "a \<le> 15" "b \<le> 15"
  then have "uint a < 2 ^ 4" and "uint b < 2 ^ 4"
    by (simp_all add: word_le_def)
  then have a: "a AND mask 4 = a" and b: "b AND mask 4 = b"
    by (simp_all only: mask_eq_iff)
  have m: "(15 :: byte) = mask 4" by (simp add: mask_eq_exp_minus_1)
  have "drop_bit 4 (push_bit 4 (a AND mask 4) OR (b AND mask 4)) = a AND mask 4"
    by (rule bit_word_eqI) (auto simp add: bit_simps)
  moreover have "(push_bit 4 (a AND mask 4) OR (b AND mask 4)) AND mask 4 = b AND mask 4"
    by (rule bit_word_eqI) (auto simp add: bit_simps)
  ultimately show ?thesis unfolding m by (simp add: a b)
qed

lemma Encode_Decode:
  "list_all (\<lambda>c. c \<in> set hextable) s \<Longrightarrow> DecodeString s = (bs, None) \<Longrightarrow> EncodeToString bs = s"
proof (induction s arbitrary: bs rule: DecodeString.induct)
  case 1
  then show ?case by simp
next
  case (2 p)
  then show ?case by (simp split: if_splits)
next
  case (3 p q rest)
  from "3.prems"(1) have p: "hextable ! unat (reverseHexTable p) = p" "reverseHexTable p \<le> 15"
    and q: "hextable ! unat (reverseHexTable q) = q" "reverseHexTable q \<le> 15"
    and r: "list_all (\<lambda>c. c \<in> set hextable) rest"
    using hextable_reverse by simp_all
  obtain tl e where d: "DecodeString rest = (tl, e)" by (cases "DecodeString rest")
  with "3.prems"(2) p(2) q(2) have bs: "bs = (push_bit 4 (reverseHexTable p) OR reverseHexTable q) # tl"
    and e: "e = None"
    by (simp_all add: Let_def not_less [symmetric])
  from "3.IH" [OF refl refl _ _ r, of tl] p(2) q(2) d e have "EncodeToString tl = rest"
    by (simp add: not_less [symmetric])
  with bs p q nibbles_split [OF p(2) q(2)] show ?case by simp
qed

lemma string_of_bytes_of_string: "string_of_bytes (bytes_of_string s) = s"
  by (induction s) (simp_all add: string_of_bytes_def bytes_of_string_def unat_of_nat)

lemma length_EncodeToString: "length (EncodeToString data) = 2 * length data"
  by (induction data) simp_all

section \<open>Properties of the TCP stub\<close>

lemma fst_validateRequest:
  "fst (validateRequest data stub) =
     ((MinLength stub \<le> 0 \<or> MinLength stub \<le> 2 * int (length data)) \<and>
      (MaxLength stub \<le> 0 \<or> 2 * int (length data) \<le> MaxLength stub))"
  by (auto simp add: validateRequest_def Let_def length_EncodeToString)

lemma keep_open_ReadOk:
  "keep_open resp (map ReadOk ds) c =
     c\<lparr>written := written c @ replicate (length ds) resp, nreads := nreads c + length ds\<rparr>"
proof (induction ds arbitrary: c)
  case Nil
  show ?case by simp
next
  case (Cons d ds)
  show ?case by (simp add: Cons.IH replicate_app_Cons_same)
qed

lemma keep_open_ReadErr:
  "keep_open resp (map ReadOk ds @ ReadErr # rest) c =
     c\<lparr>written := written c @ replicate (length ds) resp, nreads := nreads c + length ds + 1,
       closed := True\<rparr>"
proof (induction ds arbitrary: c)
  case Nil
  show ?case by simp
next
  case (Cons d ds)
  show ?case by (simp add: Cons.IH replicate_app_Cons_same)
qed

lemma keep_open_written: "\<exists>more. written (keep_open resp script c) = written c @ more"
proof (induction script arbitrary: c)
  case Nil
  show ?case by simp
next
  case (Cons r script)
  show ?case
  proof (cases r)
    case ReadErr
    then show ?thesis by simp
  next
    case (ReadOk d)
    from Cons.IH [of "c\<lparr>written := written c @ [resp], nreads := nreads c + 1\<rparr>"]
    obtain more where
      "written (keep_open resp script (c\<lparr>written := written c @ [resp], nreads := nreads c + 1\<rparr>))
         = (written c @ [resp]) @ more"
      by auto
    then show ?thesis using ReadOk by simp
  qed
qed

text \<open>
  C1, as the specification states it, does not hold. A request of two bytes (four hex
  characters) is within the bounds 4 and 8 of \<open>rule_bad_hex\<close>, yet the handler writes
  nothing and closes, because the response of the rule is not valid hex. A request of one
  byte (two hex characters) is outside the interval of \<open>rule_negative_max\<close>, whose
  maximum is \<open>-1\<close>, yet the handler answers it with the response of the rule.
\<close>

theorem tcp_validation_counterexample:
  "ValidateRequest rule_bad_hex \<and>
   spec_within_bounds (MinLength rule_bad_hex) (MaxLength rule_bad_hex) (2 * int (length [1, 2 :: byte])) \<and>
   handleConnection rule_bad_hex True [ReadOk [1, 2]] = \<lparr>written = [], nreads = 1, closed = True\<rparr> \<and>
   ValidateRequest rule_negative_max \<and>
   \<not> spec_within_bounds (MinLength rule_negative_max) (MaxLength rule_negative_max)
       (2 * int (length [1 :: byte])) \<and>
   handleConnection rule_negative_max True [ReadOk [1]] =
     \<lparr>written = [[1, 2]], nreads = 1, closed = True\<rparr>"
  by (simp add: rule_bad_hex_def rule_negative_max_def rule_9000_def spec_within_bounds_def
      handleConnection_def fst_validateRequest responseData_def reverseHexTable_def)

text \<open>
  C1, amended. For a rule with validation enabled and the request read first on a
  connection, whose length in hex characters is twice its number of bytes: when the length
  is below a positive minimum or above a positive maximum the handler closes the
  connection with nothing written; otherwise (a bound of 0 or less is no bound) it writes
  exactly the response of the rule when that response is well formed, and closes with
  nothing written when the \<^verbatim>\<open>response_hex\<close> of the rule does not decode. On a
  connection that stays open the response to the first request is the first write.
\<close>

theorem tcp_validation_outcome:
  "ValidateRequest stub \<longrightarrow>
     (if (MinLength stub \<le> 0 \<or> MinLength stub \<le> 2 * int (length data)) \<and>
         (MaxLength stub \<le> 0 \<or> 2 * int (length data) \<le> MaxLength stub)
      then (case responseData stub of
              Some payload \<Rightarrow>
                written (handleConnection stub wok [ReadOk data]) = [payload] \<and>
                take 1 (written (handleConnection stub wok (ReadOk data # rest))) = [payload]
            | None \<Rightarrow>
                handleConnection stub wok (ReadOk data # rest) =
                  \<lparr>written = [], nreads = 1, closed = True\<rparr>)
      else handleConnection stub wok (ReadOk data # rest) =
             \<lparr>written = [], nreads = 1, closed = True\<rparr>)"
proof (cases "responseData stub")
  case None
  then show ?thesis by (simp add: handleConnection_def fst_validateRequest)
next
  case (Some payload)
  obtain more where
    "written (keep_open payload rest \<lparr>written = [payload], nreads = 1, closed = False\<rparr>)
       = [payload] @ more"
    using keep_open_written [of payload rest "\<lparr>written = [payload], nreads = 1, closed = False\<rparr>"]
    by auto
  with Some show ?thesis by (simp add: handleConnection_def fst_validateRequest)
qed

theorem tcp_validation_outcome_witness:
  "ValidateRequest rule_9000 \<and>
   written (handleConnection rule_9000 True [ReadOk [1, 2]]) = [[1, 2]] \<and>
   handleConnection rule_9000 True [ReadOk [1]] = \<lparr>written = [], nreads = 1, closed = True\<rparr>"
  using tcp_validation_outcome [where stub = rule_9000 and data = "[1, 2]" and wok = True and rest = "[]"]
    tcp_validation_outcome [where stub = rule_9000 and data = "[1]" and wok = True and rest = "[]"]
  by (simp add: rule_9000_def responseData_def reverseHexTable_def)

lemma handleConnection_ReadOk:
  "handleConnection stub wok (ReadOk first # later) =
     (if ValidateRequest stub \<and> \<not> fst (validateRequest first stub)
      then \<lparr>written = [], nreads = 1, closed = True\<rparr>
      else (case responseData stub of
              None \<Rightarrow> \<lparr>written = [], nreads = 1, closed = True\<rparr>
            | Some resp \<Rightarrow>
                if wok \<and> \<not> CloseAfter stub
                then keep_open resp later \<lparr>written = [resp], nreads = 1, closed = False\<rparr>
                else \<lparr>written = [resp], nreads = 1, closed = True\<rparr>))"
  by (simp add: handleConnection_def split: option.splits)

text \<open>
  C2, as the specification states it, does not hold. The rule \<open>rule_keep_open\<close> keeps
  the connection open, yet of three requests in a row none is answered when the first,
  of one byte, is below the minimum: the handler closes after the first read. The same
  happens with a first request within the bounds when the response of the rule is not
  valid hex; and when the first write fails, the handler closes after that write and the
  second request is not answered.
\<close>

theorem keep_open_counterexample:
  "\<not> CloseAfter rule_keep_open \<and>
   handleConnection rule_keep_open True [ReadOk [1], ReadOk [1, 2], ReadOk [1, 2]] =
     \<lparr>written = [], nreads = 1, closed = True\<rparr> \<and>
   \<not> CloseAfter rule_keep_open_bad_hex \<and>
   handleConnection rule_keep_open_bad_hex True [ReadOk [1, 2], ReadOk [1, 2]] =
     \<lparr>written = [], nreads = 1, closed = True\<rparr> \<and>
   handleConnection rule_keep_open False [ReadOk [1, 2], ReadOk [1, 2]] =
     \<lparr>written = [[1, 2]], nreads = 1, closed = True\<rparr>"
  by (simp add: rule_keep_open_def rule_keep_open_bad_hex_def rule_bad_hex_def rule_9000_def
      handleConnection_ReadOk fst_validateRequest responseData_def reverseHexTable_def)

text \<open>
  C2, amended. For a rule that keeps the connection open and \<open>N\<close> requests in a row on
  one connection, the first followed by any \<open>N - 1\<close> further ones: the validation, when
  the rule has it enabled, is applied to the first request and to no other. When the
  first request fails the validation, or the response of the rule does not decode, the
  handler writes nothing and closes; when the first write fails it closes after that
  write. Otherwise every one of the \<open>N\<close> requests is answered with the bytes computed
  for the first exchange, whatever the further requests are, and the connection stays
  open until a read fails.
\<close>

theorem keep_open_same_response:
  "\<not> CloseAfter stub \<Longrightarrow>
   handleConnection stub wok (ReadOk first # map ReadOk further) =
     (if ValidateRequest stub \<and> \<not> fst (validateRequest first stub)
      then \<lparr>written = [], nreads = 1, closed = True\<rparr>
      else (case responseData stub of
              None \<Rightarrow> \<lparr>written = [], nreads = 1, closed = True\<rparr>
            | Some resp \<Rightarrow>
                if wok
                then \<lparr>written = replicate (Suc (length further)) resp,
                      nreads = Suc (length further), closed = False\<rparr>
                else \<lparr>written = [resp], nreads = 1, closed = True\<rparr>)) \<and>
   handleConnection stub wok (ReadOk first # map ReadOk further @ ReadErr # rest) =
     (if ValidateRequest stub \<and> \<not> fst (validateRequest first stub)
      then \<lparr>written = [], nreads = 1, closed = True\<rparr>
      else (case responseData stub of
              None \<Rightarrow> \<lparr>written = [], nreads = 1, closed = True\<rparr>
            | Some resp \<Rightarrow>
                if wok
                then \<lparr>written = replicate (Suc (length further)) resp,
                      nreads = Suc (Suc (length further)), closed = True\<rparr>
                else \<lparr>written = [resp], nreads = 1, closed = True\<rparr>))"
  by (simp add: handleConnection_ReadOk keep_open_ReadOk keep_open_ReadErr split: option.splits)

theorem keep_open_same_response_witness:
  "\<not> CloseAfter rule_keep_open \<and>
   ValidateRequest rule_keep_open \<and> fst (validateRequest [1, 2] rule_keep_open) \<and>
   responseData rule_keep_open = Some [1, 2] \<and>
   \<not> fst (validateRequest [7] rule_keep_open) \<and>
   \<not> fst (validateRequest [1, 2, 3, 4, 5] rule_keep_open) \<and>
   handleConnection rule_keep_open True [ReadOk [1, 2], ReadOk [7], ReadOk [1, 2, 3, 4, 5]] =
     \<lparr>written = [[1, 2], [1, 2], [1, 2]], nreads = 3, closed = False\<rparr>"
  using keep_open_same_response [where stub = rule_keep_open and first = "[1, 2]"
      and wok = True and further = "[[7], [1, 2, 3, 4, 5]]" and rest = "[]"]
  by (simp add: rule_keep_open_def rule_9000_def fst_validateRequest responseData_def
      reverseHexTable_def)

text \<open>
  C3, as the specification states it, does not hold: a connection can end without any
  exchange. With \<open>rule_9000\<close>, which closes after the response, a request of one byte
  is below the minimum and gets no response; a connection whose first read fails gets
  none; and with \<open>rule_bad_hex\<close> a request within the bounds gets none, the response
  of the rule not being valid hex.
\<close>

theorem close_after_counterexample:
  "CloseAfter rule_9000 \<and>
   handleConnection rule_9000 True [ReadOk [1]] = \<lparr>written = [], nreads = 1, closed = True\<rparr> \<and>
   handleConnection rule_9000 True [ReadErr] = \<lparr>written = [], nreads = 1, closed = True\<rparr> \<and>
   CloseAfter rule_bad_hex \<and>
   handleConnection rule_bad_hex True [ReadOk [1, 2]] =
     \<lparr>written = [], nreads = 1, closed = True\<rparr>"
  by (simp add: rule_bad_hex_def rule_9000_def handleConnection_def fst_validateRequest
      responseData_def reverseHexTable_def)

text \<open>
  C3, amended. For a rule that closes after the response, at most one exchange takes
  place on an accepted connection. The handler reads once. When that read delivers a
  request that passes the validation (if the rule has it enabled) and the response of
  the rule decodes, the handler writes the response, once; in every other case it
  writes nothing. Then it returns, closing the connection: whatever the client sends
  next is never read and nothing more is written.
\<close>

theorem close_after_one_exchange:
  "CloseAfter stub \<Longrightarrow>
   handleConnection stub wok (r # rest) =
     (case r of
        ReadErr \<Rightarrow> \<lparr>written = [], nreads = 1, closed = True\<rparr>
      | ReadOk data \<Rightarrow>
          if ValidateRequest stub \<and> \<not> fst (validateRequest data stub)
          then \<lparr>written = [], nreads = 1, closed = True\<rparr>
          else (case responseData stub of
                  None \<Rightarrow> \<lparr>written = [], nreads = 1, closed = True\<rparr>
                | Some resp \<Rightarrow> \<lparr>written = [resp], nreads = 1, closed = True\<rparr>))"
  by (cases r) (simp_all add: handleConnection_def split: option.splits)

theorem close_after_one_exchange_witness:
  "CloseAfter rule_9000 \<and>
   ValidateRequest rule_9000 \<and> fst (validateRequest [1, 2] rule_9000) \<and>
   responseData rule_9000 = Some [1, 2] \<and>
   handleConnection rule_9000 True [ReadOk [1, 2], ReadOk [3, 4], ReadOk [5, 6]] =
     \<lparr>written = [[1, 2]], nreads = 1, closed = True\<rparr>"
  using close_after_one_exchange [where stub = rule_9000 and wok = True
      and r = "ReadOk [1, 2]" and rest = "[ReadOk [3, 4], ReadOk [5, 6]]"]
  by (simp add: rule_9000_def fst_validateRequest responseData_def reverseHexTable_def)

text \<open>
  C9. The verdict and the reason of \<^verbatim>\<open>validateRequest\<close> are the same for two rules
  with the same two length bounds; in particular they do not change when the expected
  prefix and the expected hex pattern of a rule are replaced, and neither does anything
  else the handler does on a connection.
\<close>

theorem validation_ignores_prefix_and_pattern:
  "(MinLength stub = MinLength stub' \<and> MaxLength stub = MaxLength stub'
      \<longrightarrow> validateRequest data stub = validateRequest data stub') \<and>
   validateRequest data (stub\<lparr>ExpectedPrefix := prefix, ExpectedHexPattern := pattern\<rparr>) =
     validateRequest data stub \<and>
   handleConnection (stub\<lparr>ExpectedPrefix := prefix, ExpectedHexPattern := pattern\<rparr>) wok script =
     handleConnection stub wok script"
proof -
  let ?stub = "stub\<lparr>ExpectedPrefix := prefix, ExpectedHexPattern := pattern\<rparr>"
  have v: "validateRequest d ?stub = validateRequest d stub" for d
    by (simp add: validateRequest_def Let_def cong: if_cong)
  have r: "responseData ?stub = responseData stub"
    by (simp add: responseData_def cong: if_cong)
  have h: "handleConnection ?stub wok script = handleConnection stub wok script"
    by (simp add: handleConnection_def v r split: list.splits read_result.splits option.splits)
  have b: "MinLength stub = MinLength stub' \<and> MaxLength stub = MaxLength stub'
      \<longrightarrow> validateRequest data stub = validateRequest data stub'"
    by (simp add: validateRequest_def Let_def cong: if_cong)
  from b v h show ?thesis by simp
qed

theorem validation_ignores_prefix_and_pattern_witness:
  "MinLength rule_9000 =
     MinLength (rule_9000\<lparr>ExpectedPrefix := ''ff'', ExpectedHexPattern := ''^00.*''\<rparr>) \<and>
   MaxLength rule_9000 =
     MaxLength (rule_9000\<lparr>ExpectedPrefix := ''ff'', ExpectedHexPattern := ''^00.*''\<rparr>) \<and>
   validateRequest [1] (rule_9000\<lparr>ExpectedPrefix := ''ff'', ExpectedHexPattern := ''^00.*''\<rparr>) =
     (False, ''Request too short: 2 hex chars (min: 4)'') \<and>
   validateRequest [1] rule_9000 = (False, ''Request too short: 2 hex chars (min: 4)'')"
  using validation_ignores_prefix_and_pattern [where stub = rule_9000
      and stub' = "rule_9000\<lparr>ExpectedPrefix := ''ff'', ExpectedHexPattern := ''^00.*''\<rparr>"
      and data = "[1]" and prefix = "''ff''" and pattern = "''^00.*''" and wok = True
      and script = "[]"]
  by (simp add: rule_9000_def validateRequest_def fmt_d_def digits_of.simps digit_char_def)

section \<open>Properties of the bridge\<close>

lemma ws_to_tcp_appends:
  "\<exists>more. tcp_written (ws_to_tcp E tw script st) = tcp_written st @ more"
proof (induction script arbitrary: st)
  case Nil
  show ?case by simp
next
  case (Cons r script)
  show ?case
  proof (cases r)
    case (WsReadErr e)
    then show ?thesis by simp
  next
    case (WsMessage messageType message)
    obtain dataToSend err where d:
      "(if messageType = BinaryMessage then (message, None)
        else DecodeString (string_of_bytes message)) = (dataToSend, err)"
      by (cases "if messageType = BinaryMessage then (message, None :: hex_error option)
        else DecodeString (string_of_bytes message)") auto
    show ?thesis
    proof (cases err)
      case (Some e)
      from Cons.IH [of "st\<lparr>ws_sent := ws_sent st @
          [(TextMessage, bytes_of_string (''ERROR: Invalid hex: '' @ E e))]\<rparr>"]
      obtain more where
        "tcp_written (ws_to_tcp E tw script (st\<lparr>ws_sent := ws_sent st @
            [(TextMessage, bytes_of_string (''ERROR: Invalid hex: '' @ E e))]\<rparr>))
           = tcp_written st @ more"
        by auto
      with d Some WsMessage show ?thesis by simp
    next
      case None
      show ?thesis
      proof (cases "tw (length (tcp_written st))")
        case (Some e)
        with d None WsMessage show ?thesis by simp
      next
        case n: None
        from Cons.IH [of "st\<lparr>tcp_written := tcp_written st @ [dataToSend]\<rparr>"]
        obtain more where
          "tcp_written (ws_to_tcp E tw script (st\<lparr>tcp_written := tcp_written st @ [dataToSend]\<rparr>))
             = (tcp_written st @ [dataToSend]) @ more"
          by auto
        with d None n WsMessage show ?thesis by simp
      qed
    qed
  qed
qed

lemma ws_to_tcp_forward:
  assumes "(if messageType = BinaryMessage then (message, None)
            else DecodeString (string_of_bytes message)) = (dataToSend, None)"
  shows "take (Suc (length (tcp_written st)))
           (tcp_written (ws_to_tcp E tw (WsMessage messageType message # rest) st))
         = tcp_written st @ [dataToSend]"
proof (cases "tw (length (tcp_written st))")
  case (Some e)
  with assms show ?thesis by simp
next
  case None
  obtain more where
    "tcp_written (ws_to_tcp E tw rest (st\<lparr>tcp_written := tcp_written st @ [dataToSend]\<rparr>))
       = (tcp_written st @ [dataToSend]) @ more"
    using ws_to_tcp_appends [of E tw rest "st\<lparr>tcp_written := tcp_written st @ [dataToSend]\<rparr>"]
    by auto
  with assms None show ?thesis by simp
qed

text \<open>
  C4. In the loop from the WebSocket to TCP, whatever the loop has done before and
  whatever follows: the payload of a binary frame is the next thing written to the TCP
  connection, unchanged; the payload of any other frame is read as a hexadecimal string
  and, when it decodes, the decoded bytes are the next thing written. The text frame
  \<^verbatim>\<open>f00d\<close> makes the loop write the two bytes \<open>0xf0\<close>, \<open>0x0d\<close> and nothing
  else.
\<close>

theorem ws_frame_forwarded:
  "(messageType = BinaryMessage \<longrightarrow>
      take (Suc (length (tcp_written st)))
        (tcp_written (ws_to_tcp E tw (WsMessage messageType message # rest) st))
      = tcp_written st @ [message]) \<and>
   (messageType \<noteq> BinaryMessage \<and> DecodeString (string_of_bytes message) = (decoded, None) \<longrightarrow>
      take (Suc (length (tcp_written st)))
        (tcp_written (ws_to_tcp E tw (WsMessage messageType message # rest) st))
      = tcp_written st @ [decoded]) \<and>
   tcp_written (ws_to_tcp E tw [WsMessage TextMessage (bytes_of_string ''f00d'')] idle)
     = [[0xf0, 0x0d]]"
proof (intro conjI impI)
  assume "messageType = BinaryMessage"
  then show "take (Suc (length (tcp_written st)))
        (tcp_written (ws_to_tcp E tw (WsMessage messageType message # rest) st))
      = tcp_written st @ [message]"
    by (intro ws_to_tcp_forward) simp
next
  assume "messageType \<noteq> BinaryMessage \<and> DecodeString (string_of_bytes message) = (decoded, None)"
  then show "take (Suc (length (tcp_written st)))
        (tcp_written (ws_to_tcp E tw (WsMessage messageType message # rest) st))
      = tcp_written st @ [decoded]"
    by (intro ws_to_tcp_forward) simp
next
  show "tcp_written (ws_to_tcp E tw [WsMessage TextMessage (bytes_of_string ''f00d'')] idle)
     = [[0xf0, 0x0d]]"
    by (simp add: string_of_bytes_of_string reverseHexTable_def TextMessage_def BinaryMessage_def
        idle_def split: option.splits)
qed

theorem ws_frame_forwarded_witness:
  "tcp_written (ws_to_tcp hex_error_text no_error
      [WsMessage BinaryMessage [0x7a, 0x7a], WsMessage TextMessage (bytes_of_string ''0aFF'')] idle)
     = [[0x7a, 0x7a], [0x0a, 0xff]] \<and>
   tcp_written (ws_to_tcp hex_error_text no_error
      [WsMessage TextMessage (bytes_of_string ''f00d'')] idle) = [[0xf0, 0x0d]]"
  using ws_frame_forwarded [where messageType = BinaryMessage and message = "[0x7a, 0x7a]"
      and st = idle and E = hex_error_text and tw = no_error
      and rest = "[WsMessage TextMessage (bytes_of_string ''0aFF'')]" and decoded = "[]"]
  by (simp add: string_of_bytes_of_string reverseHexTable_def TextMessage_def BinaryMessage_def
      idle_def no_error_def)

text \<open>
  C5. A frame that is not binary and whose text does not decode as hex has exactly one
  effect: one text frame carrying the error is sent back on the WebSocket. Nothing is
  written to TCP, nothing is put on the error channel, and the loop goes on with the
  frames that follow.
\<close>

theorem invalid_hex_reported:
  "messageType \<noteq> BinaryMessage \<Longrightarrow>
   DecodeString (string_of_bytes message) = (decoded, Some err) \<Longrightarrow>
   ws_to_tcp E tw (WsMessage messageType message # rest) st =
     ws_to_tcp E tw rest
       (st\<lparr>ws_sent := ws_sent st @
           [(TextMessage, bytes_of_string (''ERROR: Invalid hex: '' @ E err))]\<rparr>) \<and>
   ws_to_tcp E tw [WsMessage messageType message] st =
     st\<lparr>ws_sent := ws_sent st @
         [(TextMessage, bytes_of_string (''ERROR: Invalid hex: '' @ E err))]\<rparr>"
  by simp

theorem invalid_hex_reported_witness:
  "TextMessage \<noteq> BinaryMessage \<and>
   DecodeString (string_of_bytes (bytes_of_string ''zz'')) = ([], Some (InvalidByteError CHR ''z'')) \<and>
   handleWebSocket env_zz =
     \<lparr>handler_sent = [], loops = 2,
      up = \<lparr>tcp_written = [[0xf0, 0x0d]],
            ws_sent = [(TextMessage,
              bytes_of_string
                (''ERROR: Invalid hex: encoding/hex: invalid byte: U+007A '' @
                 [CHR 0x27, CHR ''z'', CHR 0x27]))],
            errChan = []\<rparr>,
      down = idle, returned = False\<rparr>"
  using invalid_hex_reported [where messageType = TextMessage
      and message = "bytes_of_string ''zz''" and decoded = "[]"
      and err = "InvalidByteError CHR ''z''" and E = hex_error_text and tw = no_error
      and rest = "[WsMessage TextMessage (bytes_of_string ''f00d'')]" and st = idle]
  by (simp add: env_zz_def handleWebSocket_def string_of_bytes_of_string reverseHexTable_def
      TextMessage_def BinaryMessage_def idle_def no_error_def hex_error_text_def
      fmt_sharp_U_def IsPrint_def EncodeRune_def)

text \<open>
  C6. Decoding the hex encoding of any byte sequence gives the sequence back and no
  error; and encoding what the decoder returns for a text of lower-case hex digits, the
  texts the encoder produces, gives the text back. In the bridge: the chunk \<open>b\<close> read
  from TCP is sent as one text frame, and that text frame, received by the other loop,
  makes it write exactly \<open>b\<close> to TCP.
\<close>

theorem hex_round_trip:
  "DecodeString (EncodeToString b) = (b, None) \<and>
   (list_all (\<lambda>c. c \<in> set hextable) s \<and> DecodeString s = (decoded, None)
      \<longrightarrow> EncodeToString decoded = s) \<and>
   ws_sent (tcp_to_ws ww [TcpData b] idle) = [(TextMessage, bytes_of_string (EncodeToString b))] \<and>
   tcp_written (ws_to_tcp E tw [WsMessage TextMessage (bytes_of_string (EncodeToString b))] idle)
     = [b]"
proof -
  have bridge:
    "ws_sent (tcp_to_ws ww [TcpData b] idle) = [(TextMessage, bytes_of_string (EncodeToString b))] \<and>
     tcp_written (ws_to_tcp E tw [WsMessage TextMessage (bytes_of_string (EncodeToString b))] idle)
       = [b]"
    by (simp add: Decode_Encode string_of_bytes_of_string TextMessage_def BinaryMessage_def
        idle_def Let_def split: option.splits)
  with Decode_Encode [of b] Encode_Decode [of s decoded] show ?thesis by blast
qed

theorem hex_round_trip_witness:
  "EncodeToString [0x00, 0x7f, 0xff] = ''007fff'' \<and>
   list_all (\<lambda>c. c \<in> set hextable) ''007fff'' \<and>
   DecodeString ''007fff'' = ([0x00, 0x7f, 0xff], None) \<and>
   DecodeString (EncodeToString []) = ([], None)"
  using hex_round_trip [where b = "[0x00, 0x7f, 0xff]" and s = "''007fff''"
      and decoded = "[0x00, 0x7f, 0xff]" and ww = no_error and tw = no_error
      and E = hex_error_text]
  by (simp add: hextable_def reverseHexTable_def)

text \<open>
  C7. When the upgrade has succeeded and the connection to the TCP backend fails, the
  handler sends exactly one text frame, the error, starts no loop and returns; nothing
  is written to TCP and no other frame is sent.
\<close>

theorem dial_failure_ends_session:
  "upgrade_ok E \<Longrightarrow> dial E = Some err \<Longrightarrow>
   handler_sent (handleWebSocket E) =
     [(TextMessage, bytes_of_string (''ERROR: Cannot connect to TCP backend: '' @ err))] \<and>
   loops (handleWebSocket E) = 0 \<and>
   returned (handleWebSocket E) \<and>
   tcp_written (up (handleWebSocket E)) = [] \<and> ws_sent (up (handleWebSocket E)) = [] \<and>
   tcp_written (down (handleWebSocket E)) = [] \<and> ws_sent (down (handleWebSocket E)) = []"
  by (simp add: handleWebSocket_def idle_def)

theorem dial_failure_ends_session_witness:
  "upgrade_ok env_refused \<and> dial env_refused = Some ''connection refused'' \<and>
   ws_reads env_refused \<noteq> [] \<and> tcp_reads env_refused \<noteq> [] \<and>
   handleWebSocket env_refused =
     \<lparr>handler_sent =
        [(TextMessage, bytes_of_string ''ERROR: Cannot connect to TCP backend: connection refused'')],
      loops = 0, up = idle, down = idle, returned = True\<rparr>"
  using dial_failure_ends_session [where E = env_refused and err = "''connection refused''"]
  by (simp add: env_refused_def env_zz_def handleWebSocket_def)

section \<open>Properties of the JSON field check\<close>

lemma Split_dot_not_Nil: "Split_dot s \<noteq> []"
  by (induction s) (auto split: list.splits)

lemma Split_dot_plain: "CHR ''.'' \<notin> set key \<Longrightarrow> Split_dot key = [key]"
  by (induction key) auto

lemma Split_dot_dot: "CHR ''.'' \<notin> set key \<Longrightarrow> Split_dot (key @ CHR ''.'' # rest) = key # Split_dot rest"
  by (induction key) auto

lemma descend_non_object:
  "(case v of JObject m \<Rightarrow> False | _ \<Rightarrow> True) \<Longrightarrow> descend v (Split_dot s) = None"
  by (cases "Split_dot s") (simp_all add: Split_dot_not_Nil split: jvalue.splits)

text \<open>
  C10. For a request body decoded as a JSON object \<open>data\<close>: the check of a path that
  is a single key passes exactly when the value the object holds for the key (\<^verbatim>\<open>nil\<close>
  when the key is absent) and the expected value have the same default rendering; the
  check of a path \<^verbatim>\<open>key.rest\<close> is the check of \<^verbatim>\<open>rest\<close> in the object held for
  \<^verbatim>\<open>key\<close>, and fails when the value held for \<^verbatim>\<open>key\<close> is not an object. So the
  number 1 and the string \<^verbatim>\<open>1\<close>, which render alike, are matched.
\<close>

theorem json_field_match:
  "CHR ''.'' \<notin> set key \<Longrightarrow>
   jsonFieldMatches data key expected = (Sprint_v (index_map data key) = Sprint_v expected) \<and>
   jsonFieldMatches data (key @ ''.'' @ rest) expected =
     (case index_map data key of
        JObject m \<Rightarrow> jsonFieldMatches m rest expected
      | _ \<Rightarrow> False) \<and>
   jsonFieldMatches [(''id'', JNumber ''1'')] ''id'' (JString ''1'')"
proof -
  assume key: "CHR ''.'' \<notin> set key"
  have leaf: "jsonFieldMatches data key expected
      = (Sprint_v (index_map data key) = Sprint_v expected)"
    using key by (simp add: jsonFieldMatches_def Split_dot_plain)
  have nested: "jsonFieldMatches data (key @ ''.'' @ rest) expected =
     (case index_map data key of
        JObject m \<Rightarrow> jsonFieldMatches m rest expected
      | _ \<Rightarrow> False)"
    using key
    by (cases "index_map data key")
      (simp_all add: jsonFieldMatches_def Split_dot_dot descend_non_object)
  have mixed: "jsonFieldMatches [(''id'', JNumber ''1'')] ''id'' (JString ''1'')"
    by (simp add: jsonFieldMatches_def index_map_def)
  from leaf nested mixed show ?thesis by simp
qed

theorem json_field_match_witness:
  "CHR ''.'' \<notin> set ''user'' \<and>
   jsonFieldMatches order_body ''user.id'' (JString ''1'') \<and>
   jsonFieldMatches order_body ''user.id'' (JNumber ''1'') \<and>
   \<not> jsonFieldMatches order_body ''user.id'' (JNumber ''2'') \<and>
   \<not> jsonFieldMatches order_body ''count.id'' (JNumber ''5'') \<and>
   \<not> jsonFieldMatches order_body ''missing.id'' JNull \<and>
   jsonFieldMatches order_body ''user.missing'' JNull \<and>
   jsonFieldMatches order_body ''user'' (JString ''map[id:1 name:bob]'')"
  using json_field_match [where key = "''user''" and data = order_body and rest = "''id''"
      and expected = "JString ''1''"]
  by (simp add: order_body_def jsonFieldMatches_def index_map_def)

section \<open>Properties of the HTTP stub server\<close>

lemma matchRequest_full_match:
  "matchRequest L r stub = (full_match header_reads L r stub, r)"
proof (cases r)
  case (fields m p h b)
  show ?thesis
  proof (cases b)
    case (Readable s)
    with fields show ?thesis
      by (auto simp add: matchRequest_def full_match_def body_conditions_def header_reads_def
          Let_def split: option.splits)
  next
    case Failing
    with fields show ?thesis
      by (auto simp add: matchRequest_def full_match_def body_conditions_def header_reads_def)
  qed
qed

lemma ServeHTTP_find:
  "ServeHTTP L stubs r =
     (case find (full_match header_reads L r) stubs of
        None \<Rightarrow> Inr not_found
      | Some stub \<Rightarrow>
          if Status (Response stub) < 100 \<or> Status (Response stub) > 999
          then Inl (InvalidWriteHeaderCode (Status (Response stub)))
          else Inr (reply_of (Response stub)))"
  by (induction stubs) (simp_all add: matchRequest_full_match)

lemma header_present_reads:
  "value \<noteq> [] \<Longrightarrow> header_present r key value = header_reads r key value"
  by (auto simp add: header_present_def header_reads_def Header_Get_def split: list.splits)

lemma full_match_present:
  "list_all (\<lambda>(key, value). value \<noteq> []) (HTTPStub.Headers stub) \<Longrightarrow>
   full_match header_present L r stub = full_match header_reads L r stub"
proof -
  assume a: "list_all (\<lambda>(key, value). value \<noteq> []) (HTTPStub.Headers stub)"
  have "list_all (\<lambda>(key, value). header_present r key value) hs
      = list_all (\<lambda>(key, value). header_reads r key value) hs"
    if "list_all (\<lambda>(key, value). value \<noteq> []) hs" for hs
    using that by (induction hs) (auto simp add: header_present_reads)
  with a show ?thesis by (simp add: full_match_def)
qed

lemma find_cong_list_all:
  "list_all (\<lambda>x. P x = Q x) xs \<Longrightarrow> find P xs = find Q xs"
  by (induction xs) auto

lemma EqualFold_examples:
  "EqualFold no_fold ''GET'' ''GET''" "EqualFold no_fold ''post'' ''POST''"
  "\<not> EqualFold no_fold ''post'' ''GET''" "\<not> EqualFold no_fold ''GET'' ''POST''"
  by code_simp+

text \<open>
  C8, as the specification states it, does not hold. The stub \<open>stub_debug\<close> names the
  header \<^verbatim>\<open>X-Debug\<close> with the empty value; the request \<open>get_health\<close> has no
  header at all, so that with headers required to be present the first full match among
  \<open>stub_debug\<close>, \<open>stub_health\<close> is \<open>stub_health\<close>. The server answers with the
  response of \<open>stub_debug\<close>. And \<open>stub_no_status\<close>, a rule without a status, matches
  the request in full, yet the server sends no response: the status 0 makes the response
  writer panic.
\<close>

theorem http_first_match_counterexample:
  "\<not> full_match header_present plain_library get_health stub_debug \<and>
   first_match_reply header_present plain_library [stub_debug, stub_health] get_health
     = reply_of (Response stub_health) \<and>
   ServeHTTP plain_library [stub_debug, stub_health] get_health
     = Inr (reply_of (Response stub_debug)) \<and>
   reply_of (Response stub_debug) \<noteq> reply_of (Response stub_health) \<and>
   full_match header_present plain_library get_health stub_no_status \<and>
   first_match_reply header_present plain_library [stub_no_status, stub_health] get_health
     = reply_of (Response stub_no_status) \<and>
   ServeHTTP plain_library [stub_no_status, stub_health] get_health
     = Inl (InvalidWriteHeaderCode 0)"
  by (simp add: full_match_def header_present_def first_match_reply_def stub_debug_def
      stub_no_status_def stub_health_def get_health_def no_headers_def matchRequest_def
      plain_library_def EqualFold_examples Header_Get_def body_conditions_def reply_of_def)

text \<open>
  C8, amended. The server scans the stubs in the order of their declaration and stops
  at the first stub that matches in full, where a header the stub names matches when
  the value read from the request (its first value, the empty string when the header is
  absent) equals the value of the stub. When the status of that stub is a code from 100
  to 999 the server answers with the response of that stub: it hands its status, its
  headers and its body to the response writer. When no stub matches, it answers 404 with the fixed error body. When no stub
  names a header with the empty value, the first stub that matches in full is the first
  stub all of whose headers are present with exactly their value.
\<close>

theorem http_first_match:
  "(case find (full_match header_reads L r) stubs of
      None \<Rightarrow> ServeHTTP L stubs r = Inr not_found
    | Some stub \<Rightarrow>
        100 \<le> Status (Response stub) \<and> Status (Response stub) \<le> 999
          \<longrightarrow> ServeHTTP L stubs r = Inr (reply_of (Response stub))) \<and>
   (list_all (\<lambda>stub. list_all (\<lambda>(key, value). value \<noteq> []) (HTTPStub.Headers stub)) stubs \<longrightarrow>
      find (full_match header_present L r) stubs = find (full_match header_reads L r) stubs)"
proof (intro conjI impI)
  show "case find (full_match header_reads L r) stubs of
      None \<Rightarrow> ServeHTTP L stubs r = Inr not_found
    | Some stub \<Rightarrow>
        100 \<le> Status (Response stub) \<and> Status (Response stub) \<le> 999
          \<longrightarrow> ServeHTTP L stubs r = Inr (reply_of (Response stub))"
    by (simp add: ServeHTTP_find split: option.splits)
next
  assume "list_all (\<lambda>stub. list_all (\<lambda>(key, value). value \<noteq> []) (HTTPStub.Headers stub)) stubs"
  then have "list_all (\<lambda>stub. full_match header_present L r stub
      = full_match header_reads L r stub) stubs"
    by (induction stubs) (simp_all add: full_match_present)
  then show "find (full_match header_present L r) stubs
      = find (full_match header_reads L r) stubs"
    by (rule find_cong_list_all)
qed

theorem http_first_match_witness:
  "list_all (\<lambda>stub. list_all (\<lambda>(key, value). value \<noteq> []) (HTTPStub.Headers stub))
     [stub_echo, stub_auth, stub_health] \<and>
   find (full_match header_reads plain_library get_health_auth) [stub_echo, stub_auth, stub_health]
     = Some stub_auth \<and>
   100 \<le> Status (Response stub_auth) \<and> Status (Response stub_auth) \<le> 999 \<and>
   ServeHTTP plain_library [stub_echo, stub_auth, stub_health] get_health_auth
     = Inr \<lparr>code = 204, headers_set = [], body_written = []\<rparr> \<and>
   ServeHTTP plain_library [stub_echo, stub_auth, stub_health] get_health
     = Inr \<lparr>code = 200, headers_set = [(''Content-Type'', ''application/json'')],
            body_written = ''{\"status\": \"ok\"}''\<rparr> \<and>
   ServeHTTP plain_library [stub_echo, stub_auth, stub_health] post_health
     = Inr \<lparr>code = 201, headers_set = [], body_written = ''pong''\<rparr> \<and>
   ServeHTTP plain_library [stub_echo, stub_auth] get_health = Inr not_found \<and>
   code not_found = 404"
  using http_first_match [where L = plain_library and stubs = "[stub_echo, stub_auth, stub_health]"
      and r = get_health_auth]
  by (simp add: stub_echo_def stub_auth_def stub_health_def get_health_def get_health_auth_def
      post_health_def no_headers_def auth_headers_def matchRequest_def full_match_def
      header_reads_def body_conditions_def plain_library_def EqualFold_examples
      Header_Get_def reply_of_def not_found_def)

end
